theory Spec2Isabelle
  imports Main "HOL-Library.Multiset" "HOL-Library.AList"
begin

section \<open>Strings of the JavaScript runtime\<close>

text \<open>
  A JavaScript string is a sequence of UTF-16 code units. The user-facing messages of
  the application are Japanese text, so a string is modelled as the list of its code
  units, and every message constant below is the code-unit list of the literal in the
  source. ASCII literals are written through \<open>ascii\<close>.
\<close>

type_synonym jsstring = "nat list"

definition ascii :: "string \<Rightarrow> jsstring" where
  "ascii s = map of_char s"

text \<open>
  \<open>String.prototype.trim\<close> removes the code units of the ECMAScript productions
  WhiteSpace and LineTerminator from both ends: TAB, LF, VT, FF, CR, SP, NBSP, U+1680,
  U+2000 to U+200A, U+2028, U+2029, U+202F, U+205F, U+3000 and U+FEFF.
\<close>

definition isWhiteSpace :: "nat \<Rightarrow> bool" where
  "isWhiteSpace c =
     (c = 9 \<or> c = 10 \<or> c = 11 \<or> c = 12 \<or> c = 13 \<or> c = 32 \<or> c = 160 \<or> c = 5760
      \<or> (8192 \<le> c \<and> c \<le> 8202) \<or> c = 8232 \<or> c = 8233 \<or> c = 8239 \<or> c = 8287
      \<or> c = 12288 \<or> c = 65279)"

definition trim :: "jsstring \<Rightarrow> jsstring" where
  "trim s = rev (dropWhile isWhiteSpace (rev (dropWhile isWhiteSpace s)))"

text \<open>\<open>s.includes(pat)\<close>: \<open>pat\<close> occurs in \<open>s\<close> as a contiguous run.\<close>

fun str_includes :: "jsstring \<Rightarrow> jsstring \<Rightarrow> bool" where
  "str_includes [] pat = (pat = [])"
| "str_includes (c # cs) pat = (take (length pat) (c # cs) = pat \<or> str_includes cs pat)"

text \<open>\<open>xs.join(sep)\<close> on an array of strings.\<close>

fun join :: "jsstring \<Rightarrow> jsstring list \<Rightarrow> jsstring" where
  "join sep [] = []"
| "join sep [x] = x"
| "join sep (x # y # ys) = x @ sep @ join sep (y # ys)"

text \<open>Decimal rendering of a non-negative integer, as a template literal prints it.\<close>

function show_nat :: "nat \<Rightarrow> jsstring" where
  "show_nat n = (if n < 10 then [48 + n] else show_nat (n div 10) @ [48 + n mod 10])"
  by pat_completeness auto
termination
  by (relation "measure (\<lambda>n. n)") auto

declare show_nat.simps [simp del]

section \<open>Thrown values and settled promises\<close>

text \<open>
  What a JavaScript \<open>catch\<close> receives: an \<open>Error\<close> object with its message, a
  \<open>TypeError\<close> (a subclass of \<open>Error\<close>) with its message, or any other value.
  A promise that has settled is either fulfilled with a value or rejected with a reason.
\<close>

datatype thrown = JsError jsstring | JsTypeError jsstring | JsOther

fun instanceofError :: "thrown \<Rightarrow> bool" where
  "instanceofError JsOther = False"
| "instanceofError _ = True"

fun instanceofTypeError :: "thrown \<Rightarrow> bool" where
  "instanceofTypeError (JsTypeError _) = True"
| "instanceofTypeError _ = False"

fun message :: "thrown \<Rightarrow> jsstring" where
  "message (JsError m) = m"
| "message (JsTypeError m) = m"
| "message JsOther = []"

datatype 'a settled = Fulfilled 'a | Rejected thrown

text \<open>The idiom \<open>e instanceof Error ? e.message : fallback\<close>.\<close>

definition messageOr :: "thrown \<Rightarrow> jsstring \<Rightarrow> jsstring" where
  "messageOr e fallback = (if instanceofError e then message e else fallback)"

section \<open>services/geminiService.ts\<close>

subsection \<open>Message literals\<close>

definition msg_no_summary_target :: jsstring where
  "msg_no_summary_target =
    [35201, 32004, 23550, 35937, 12398, 12486, 12461, 12473, 12488, 12364, 12354, 12426,
     12414, 12379, 12435, 12290]"

definition ctx_summary :: jsstring where
  "ctx_summary =
    [35201, 32004, 29983, 25104]"

definition msg_api_key_invalid :: jsstring where
  "msg_api_key_invalid =
    [65, 80, 73, 12461, 12540, 12364, 28961, 21177, 12363, 12289, 35373, 23450, 12373,
     12428, 12390, 12356, 12414, 12379, 12435, 12290, 29872, 22659, 22793, 25968, 12434,
     30906, 35469, 12375, 12390, 12367, 12384, 12373, 12356, 12290]"

definition msg_rate_limit_pre :: jsstring where
  "msg_rate_limit_pre =
    [65, 80, 73, 12398, 21033, 29992, 22238, 25968, 21046, 38480, 12434, 36229, 12360,
     12414, 12375, 12383, 12290, 12375, 12400, 12425, 12367, 24453, 12387, 12390, 12363,
     12425, 20877, 24230, 12362, 35430, 12375, 12367, 12384, 12373, 12356, 12290, 40,
     12467, 12531, 12486, 12461, 12473, 12488, 58, 32]"

definition msg_billing :: jsstring where
  "msg_billing =
    [71, 111, 111, 103, 108, 101, 32, 67, 108, 111, 117, 100, 12503, 12525, 12472, 12455,
     12463, 12488, 12398, 35506, 37329, 35373, 23450, 12395, 21839, 38988, 12364, 12354,
     12427, 21487, 33021, 24615, 12364, 12354, 12426, 12414, 12377, 12290, 35373, 23450,
     12434, 30906, 35469, 12375, 12390, 12367, 12384, 12373, 12356, 12290]"

definition msg_ai_pre :: jsstring where
  "msg_ai_pre =
    [65, 73, 12395, 12424, 12427]"

definition msg_timeout_post :: jsstring where
  "msg_timeout_post =
    [12364, 12479, 12452, 12512, 12450, 12454, 12488, 12375, 12414, 12375, 12383, 12290,
     12459, 12479, 12525, 12464, 12364, 22823, 12365, 12377, 12366, 12427, 12363, 12289,
     35079, 38609, 12377, 12366, 12427, 21487, 33021, 24615, 12364, 12354, 12426, 12414,
     12377, 12290]"

definition msg_error_mid :: jsstring where
  "msg_error_mid =
    [20013, 12395, 12456, 12521, 12540, 12364, 30330, 29983, 12375, 12414, 12375, 12383,
     58, 32]"

definition msg_unknown_post :: jsstring where
  "msg_unknown_post =
    [20013, 12395, 19981, 26126, 12394, 12456, 12521, 12540, 12364, 30330, 29983, 12375,
     12414, 12375, 12383, 12290]"

subsection \<open>handleGeminiError\<close>

text \<open>
  \<open>handleGeminiError(error, context)\<close> always returns an \<open>Error\<close>; the function
  below gives its message. \<open>String.prototype.toLowerCase\<close> is a parameter.
\<close>

definition handleGeminiError ::
  "(jsstring \<Rightarrow> jsstring) \<Rightarrow> thrown \<Rightarrow> jsstring \<Rightarrow> thrown" where
  "handleGeminiError toLowerCase err ctx =
     (if instanceofError err then
        (let errorMessage = toLowerCase (message err) in
         if str_includes errorMessage (ascii ''api key not valid'')
            \<or> str_includes errorMessage (ascii ''api_key_invalid'')
         then JsError msg_api_key_invalid
         else if str_includes errorMessage (ascii ''rate limit'')
            \<or> str_includes errorMessage (ascii ''resource_exhausted'')
            \<or> str_includes errorMessage (ascii ''429'')
         then JsError (msg_rate_limit_pre @ ctx @ ascii '')'')
         else if str_includes errorMessage (ascii ''billing'')
            \<or> str_includes errorMessage (ascii ''project_disabled'')
         then JsError msg_billing
         else if str_includes errorMessage (ascii ''timed out'')
         then JsError (msg_ai_pre @ ctx @ msg_timeout_post)
         else JsError (msg_ai_pre @ ctx @ msg_error_mid @ message err))
      else JsError (msg_ai_pre @ ctx @ msg_unknown_post))"

subsection \<open>generateSummary\<close>

text \<open>
  The AI model is reached through \<open>ai.models.generateContent\<close> wrapped in
  \<open>withTimeout\<close>. The prompt is a fixed template around \<open>text\<close>, so the model is a
  function from \<open>text\<close> to the settled outcome of that wrapped call (a timeout is a
  rejection). The second component of the result is the log of gateway calls made.
\<close>

definition generateSummary ::
  "(jsstring \<Rightarrow> jsstring) \<Rightarrow> (jsstring \<Rightarrow> jsstring settled) \<Rightarrow> jsstring
     \<Rightarrow> (thrown + jsstring) \<times> jsstring list" where
  "generateSummary toLowerCase model text =
     (if trim text = [] then (Inr msg_no_summary_target, [])
      else (case model text of
              Fulfilled response \<Rightarrow> (Inr (trim response), [text])
            | Rejected err \<Rightarrow> (Inl (handleGeminiError toLowerCase err ctx_summary), [text])))"

section \<open>types.ts\<close>

text \<open>
  A JavaScript \<open>number\<close> is an IEEE double; no function modelled here computes with a
  price, so the type is left opaque. \<open>T | null\<close> and an optional field \<open>f?: T\<close> are
  options. The field \<open>id\<close> is written \<open>spec_id\<close> in \<open>CarSpecification\<close> and
  \<open>ident\<close> in \<open>CatalogRecord\<close>. A \<open>Date\<close> is its time value, the milliseconds
  since the epoch. \<open>CatalogData\<close> is \<open>Omit<CatalogRecord, 'id'>\<close>; the type of the
  identifier is a parameter, since the IndexedDB store assigns numbers and the
  Firestore store assigns strings.
\<close>

typedecl js_number

record CarSpecification =
  spec_id :: jsstring
  manufacturer :: "jsstring option"
  modelName :: "jsstring option"
  grade :: "jsstring option"
  price :: "js_number option"
  issueDate :: "jsstring option"
  engineType :: "jsstring option"
  displacement :: "jsstring option"
  maxPower :: "jsstring option"
  maxTorque :: "jsstring option"
  fuelEconomy :: "jsstring option"
  options :: "jsstring list option"

record CatalogData =
  fileName :: jsstring
  createdAt :: int
  extractedData :: "CarSpecification list"
  rawJson :: jsstring
  rawText :: jsstring
  summary :: "jsstring option"
  images :: "jsstring list option"

record 'i CatalogRecord = CatalogData +
  ident :: 'i

text \<open>\<open>{ ...catalog, id: k }\<close> and \<open>const { id, ...rest } = catalog\<close>.\<close>

definition withId :: "'i \<Rightarrow> CatalogData \<Rightarrow> 'i CatalogRecord" where
  "withId k c =
     \<lparr>fileName = fileName c, createdAt = createdAt c, extractedData = extractedData c,
      rawJson = rawJson c, rawText = rawText c, summary = summary c, images = images c,
      ident = k\<rparr>"

definition withoutId :: "'i CatalogRecord \<Rightarrow> CatalogData" where
  "withoutId r =
     \<lparr>fileName = fileName r, createdAt = createdAt r, extractedData = extractedData r,
      rawJson = rawJson r, rawText = rawText r, summary = summary r, images = images r\<rparr>"

section \<open>Array.prototype.sort\<close>

text \<open>
  \<open>xs.sort(cmp)\<close> is a stable sort: \<open>a\<close> comes before \<open>b\<close> when \<open>cmp(a, b) < 0\<close>,
  and elements that compare equal keep their order. Modelled as insertion sort from
  the right.
\<close>

fun insert_by :: "('a \<Rightarrow> 'a \<Rightarrow> int) \<Rightarrow> 'a \<Rightarrow> 'a list \<Rightarrow> 'a list" where
  "insert_by cmp x [] = [x]"
| "insert_by cmp x (y # ys) =
     (if cmp x y \<le> 0 then x # y # ys else y # insert_by cmp x ys)"

definition array_sort :: "('a \<Rightarrow> 'a \<Rightarrow> int) \<Rightarrow> 'a list \<Rightarrow> 'a list" where
  "array_sort cmp xs = foldr (insert_by cmp) xs []"

section \<open>db.ts: the catalog store on IndexedDB\<close>

text \<open>
  The object store \<open>catalogs\<close> is created with \<open>keyPath: 'id', autoIncrement: true\<close>.
  An object store holds its records in ascending key order and owns a key generator,
  which starts at 1; \<open>add\<close> of a value without an \<open>id\<close> stores it under the
  generator's current number and advances the generator, \<open>getAll\<close> returns the records
  in key order with the key in the field \<open>id\<close>, and \<open>delete\<close> removes the record
  under a key, succeeding whether or not one exists.

  Every function wraps one request in a promise: \<open>onsuccess\<close> resolves, \<open>onerror\<close>
  rejects with \<open>request.error\<close>. The parameter \<open>fault\<close> is that error when the request
  fails (then the store is left as it was) and \<open>None\<close> when it succeeds.
\<close>

record ObjectStore =
  rows :: "(nat \<times> CatalogData) list"
  keyGenerator :: nat

definition emptyObjectStore :: ObjectStore where
  "emptyObjectStore = \<lparr>rows = [], keyGenerator = 1\<rparr>"

definition saveCatalog_idb ::
  "thrown option \<Rightarrow> CatalogData \<Rightarrow> ObjectStore \<Rightarrow> (thrown + nat CatalogRecord) \<times> ObjectStore" where
  "saveCatalog_idb fault catalog db =
     (case fault of
        Some err \<Rightarrow> (Inl err, db)
      | None \<Rightarrow>
          (let k = keyGenerator db
           in (Inr (withId k catalog),
               db\<lparr>rows := insort_key fst (k, catalog) (rows db), keyGenerator := k + 1\<rparr>)))"

definition getAllCatalogs_idb ::
  "thrown option \<Rightarrow> ObjectStore \<Rightarrow> thrown + nat CatalogRecord list" where
  "getAllCatalogs_idb fault db =
     (case fault of
        Some err \<Rightarrow> Inl err
      | None \<Rightarrow>
          Inr (array_sort (\<lambda>a b. int (ident b) - int (ident a))
                 (map (\<lambda>(k, c). withId k c) (rows db))))"

definition deleteCatalog_idb ::
  "thrown option \<Rightarrow> nat \<Rightarrow> ObjectStore \<Rightarrow> (thrown + unit) \<times> ObjectStore" where
  "deleteCatalog_idb fault k db =
     (case fault of
        Some err \<Rightarrow> (Inl err, db)
      | None \<Rightarrow> (Inr (), db\<lparr>rows := filter (\<lambda>(k', c). k' \<noteq> k) (rows db)\<rparr>))"

section \<open>db.ts, Firestore revision: the catalog store on a document collection\<close>

text \<open>
  The collection \<open>catalogs\<close> maps document identifiers (strings) to documents; it is
  kept as an association list. The Firestore operations used:
  \<^item> \<open>addDoc\<close> stores the data under a new identifier chosen by the service;
  \<^item> \<open>getDocs(query(c, orderBy('createdAt', 'desc')))\<close> returns the documents by
    descending \<open>createdAt\<close> (documents with equal \<open>createdAt\<close> are kept here in
    their stored order);
  \<^item> \<open>deleteDoc\<close> removes the document with the given identifier, succeeding whether
    or not one exists;
  \<^item> \<open>updateDoc\<close> overwrites the fields that are given, keeps the others, and fails
    with the code \<open>not-found\<close> when the document does not exist.
  \<open>Timestamp.fromDate\<close> followed by \<open>toDate\<close> gives back the same time value, so
  \<open>createdAt\<close> is stored as it is. The outcome of each service call (an identifier, a
  list of download URLs, or a rejection) is a parameter. Each function catches an
  error, logs it and throws it again.
\<close>

type_synonym collection = "(jsstring \<times> CatalogData) list"

definition fs_not_found :: thrown where
  "fs_not_found = JsError (ascii ''not-found'')"

definition saveCatalog_fs ::
  "(jsstring list \<Rightarrow> jsstring list settled) \<Rightarrow> jsstring settled \<Rightarrow> CatalogData \<Rightarrow> collection
     \<Rightarrow> (thrown + jsstring CatalogRecord) \<times> collection" where
  "saveCatalog_fs uploadImagesToStorage addDoc catalog coll =
     (case (case images catalog of
              Some (i # is) \<Rightarrow> uploadImagesToStorage (i # is)
            | _ \<Rightarrow> Fulfilled []) of
        Rejected err \<Rightarrow> (Inl err, coll)
      | Fulfilled imageUrls \<Rightarrow>
          (case addDoc of
             Rejected err \<Rightarrow> (Inl err, coll)
           | Fulfilled docId \<Rightarrow>
               (Inr (withId docId (catalog\<lparr>images := Some imageUrls\<rparr>)),
                AList.update docId (catalog\<lparr>images := Some imageUrls\<rparr>) coll)))"

definition getAllCatalogs_fs ::
  "thrown option \<Rightarrow> collection \<Rightarrow> thrown + jsstring CatalogRecord list" where
  "getAllCatalogs_fs fault coll =
     (case fault of
        Some err \<Rightarrow> Inl err
      | None \<Rightarrow>
          Inr (map (\<lambda>(k, c). withId k c) (sort_key (\<lambda>(k, c). - createdAt c) coll)))"

definition deleteCatalog_fs ::
  "thrown option \<Rightarrow> jsstring \<Rightarrow> collection \<Rightarrow> (thrown + unit) \<times> collection" where
  "deleteCatalog_fs fault k coll =
     (case fault of
        Some err \<Rightarrow> (Inl err, coll)
      | None \<Rightarrow> (Inr (), AList.delete k coll))"

text \<open>
  \<open>updateDoc(ref, dataToUpdate)\<close>: \<open>dataToUpdate\<close> is the record without its \<open>id\<close>;
  an optional field that the record does not have is not among the fields given.
\<close>

definition updateFields :: "CatalogData \<Rightarrow> CatalogData \<Rightarrow> CatalogData" where
  "updateFields stored given =
     given\<lparr>summary := (case summary given of None \<Rightarrow> summary stored | Some s \<Rightarrow> Some s),
           images := (case images given of None \<Rightarrow> images stored | Some is \<Rightarrow> Some is)\<rparr>"

definition updateCatalog ::
  "thrown option \<Rightarrow> jsstring CatalogRecord \<Rightarrow> collection
     \<Rightarrow> (thrown + jsstring CatalogRecord) \<times> collection" where
  "updateCatalog fault catalog coll =
     (case fault of
        Some err \<Rightarrow> (Inl err, coll)
      | None \<Rightarrow>
          (case map_of coll (ident catalog) of
             None \<Rightarrow> (Inl fs_not_found, coll)
           | Some stored \<Rightarrow>
               (Inr catalog,
                AList.update (ident catalog) (updateFields stored (withoutId catalog)) coll)))"

section \<open>services/geminiService.ts: the two extraction calls\<close>

definition ctx_text :: jsstring where
  "ctx_text =
    [12486, 12461, 12473, 12488, 25277, 20986]"

definition ctx_json :: jsstring where
  "ctx_json =
    [27083, 36896, 21270, 12487, 12540, 12479, 25277, 20986]"

definition msg_empty_response :: jsstring where
  "msg_empty_response =
    [65, 73, 12363, 12425, 31354, 12398, 24540, 31572, 12364, 36820, 12373, 12428, 12414,
     12375, 12383, 12290]"

text \<open>
  As in \<open>generateSummary\<close>, \<open>model\<close> is the settled outcome of the wrapped call to
  the AI model, here as a function of the page images.
\<close>

definition extractRawTextFromImages ::
  "(jsstring \<Rightarrow> jsstring) \<Rightarrow> (jsstring list \<Rightarrow> jsstring settled) \<Rightarrow> jsstring list
     \<Rightarrow> jsstring settled" where
  "extractRawTextFromImages toLowerCase model base64Images =
     (case model base64Images of
        Fulfilled response \<Rightarrow> Fulfilled (trim response)
      | Rejected err \<Rightarrow> Rejected (handleGeminiError toLowerCase err ctx_text))"

text \<open>
  \<open>jsonParse\<close> stands for \<open>JSON.parse\<close> read as an array of items: \<open>Inl\<close> is what
  is thrown when the text is not JSON or the value cannot be mapped over. \<open>clock i\<close> is
  the value of \<open>Date.now()\<close> when item \<open>i\<close> receives its identifier.
\<close>

definition extractCarDataFromImages ::
  "(jsstring \<Rightarrow> jsstring) \<Rightarrow> (jsstring list \<Rightarrow> jsstring settled)
     \<Rightarrow> (jsstring \<Rightarrow> thrown + CarSpecification list) \<Rightarrow> (nat \<Rightarrow> nat) \<Rightarrow> jsstring list
     \<Rightarrow> (CarSpecification list \<times> jsstring) settled" where
  "extractCarDataFromImages toLowerCase model jsonParse clock base64Images =
     (case model base64Images of
        Rejected err \<Rightarrow> Rejected (handleGeminiError toLowerCase err ctx_json)
      | Fulfilled response \<Rightarrow>
          (let jsonText = trim response
           in if jsonText = []
              then Rejected (handleGeminiError toLowerCase (JsError msg_empty_response) ctx_json)
              else (case jsonParse jsonText of
                      Inl err \<Rightarrow> Rejected (handleGeminiError toLowerCase err ctx_json)
                    | Inr parsedJson \<Rightarrow>
                        Fulfilled
                          (map (\<lambda>(item, index).
                                  item\<lparr>spec_id := show_nat (clock index) @ ascii ''-'' @ show_nat index\<rparr>)
                             (zip parsedJson [0..<length parsedJson]),
                           jsonText))))"

section \<open>services/webScraperService.ts\<close>

definition msg_http_error_pre :: jsstring where
  "msg_http_error_pre =
    [72, 84, 84, 80, 12456, 12521, 12540, 58, 32]"

definition msg_invalid_url :: jsstring where
  "msg_invalid_url =
    [28961, 21177, 12394, 85, 82, 76, 12391, 12377, 12290, 27491, 12375, 12356, 85, 82, 76,
     12434, 20837, 21147, 12375, 12390, 12367, 12384, 12373, 12356, 12290]"

definition msg_fetch_failed_pre :: jsstring where
  "msg_fetch_failed_pre =
    [87, 101, 98, 12506, 12540, 12472, 12398, 21462, 24471, 12395, 22833, 25943, 12375,
     12414, 12375, 12383, 58, 32]"

definition msg_fetch_unknown :: jsstring where
  "msg_fetch_unknown =
    [87, 101, 98, 12506, 12540, 12472, 12398, 21462, 24471, 20013, 12395, 19981, 26126,
     12394, 12456, 12521, 12540, 12364, 30330, 29983, 12375, 12414, 12375, 12383, 12290]"

definition corsProxy :: jsstring where
  "corsProxy = ascii ''https://api.allorigins.win/get?url=''"

text \<open>
  What \<open>await fetch(u)\<close> followed by \<open>response.json()\<close> can give: \<open>fetch\<close> itself
  rejects, or there is a response with its \<open>ok\<close> flag, its status and the outcome of
  reading \<open>data.contents\<close> from its body.
\<close>

datatype fetch_outcome =
  FetchRejects thrown
| Response bool nat "thrown + jsstring"

text \<open>The \<open>catch\<close> block of \<open>fetchWebPageContent\<close>: every error is rethrown as an \<open>Error\<close>.\<close>

definition rethrowFetchError :: "thrown \<Rightarrow> thrown" where
  "rethrowFetchError err =
     (if instanceofTypeError err \<and> str_includes (message err) (ascii ''URL'')
      then JsError msg_invalid_url
      else if instanceofError err
      then JsError (msg_fetch_failed_pre @ message err)
      else JsError msg_fetch_unknown)"

text \<open>
  \<open>newURL\<close> stands for the constructor \<open>new URL(url)\<close>: \<open>Inl m\<close> when it throws its
  \<open>TypeError\<close> with message \<open>m\<close>, \<open>Inr h\<close> with the host name of the parsed URL
  otherwise. \<open>encodeURIComponent\<close> throws a \<open>URIError\<close> (an \<open>Error\<close> that is not a
  \<open>TypeError\<close>) on a string with a lone surrogate: \<open>Inl m\<close> is that error's message,
  \<open>Inr e\<close> the encoded string. It is evaluated inside the \<open>try\<close>, before \<open>fetch\<close> is
  called. The second component of the result is the list of requests handed to
  \<open>fetch\<close>.
\<close>

definition fetchWebPageContent ::
  "(jsstring \<Rightarrow> jsstring + jsstring) \<Rightarrow> (jsstring \<Rightarrow> jsstring + jsstring)
     \<Rightarrow> (jsstring \<Rightarrow> fetch_outcome) \<Rightarrow> jsstring \<Rightarrow> (thrown + jsstring) \<times> jsstring list" where
  "fetchWebPageContent newURL encodeURIComponent fetch url =
     (case newURL url of
        Inl m \<Rightarrow> (Inl (rethrowFetchError (JsTypeError m)), [])
      | Inr _ \<Rightarrow>
          (case encodeURIComponent url of
             Inl m \<Rightarrow> (Inl (rethrowFetchError (JsError m)), [])
           | Inr encoded \<Rightarrow>
               (let corsProxyUrl = corsProxy @ encoded
                in (case fetch corsProxyUrl of
                      FetchRejects err \<Rightarrow> (Inl (rethrowFetchError err), [corsProxyUrl])
                    | Response ok status body \<Rightarrow>
                        (if \<not> ok
                         then (Inl (rethrowFetchError
                                      (JsError (msg_http_error_pre @ show_nat status))),
                               [corsProxyUrl])
                         else (case body of
                                 Inl err \<Rightarrow> (Inl (rethrowFetchError err), [corsProxyUrl])
                               | Inr contents \<Rightarrow> (Inr contents, [corsProxyUrl])))))))"

section \<open>App.tsx: the pipeline orchestrator\<close>

subsection \<open>Progress state\<close>

text \<open>
  The steps of \<open>ProgressStep\<close>, capitalised (\<open>done\<close> is a keyword of the proof
  language).
\<close>

datatype ProgressStep =
  Idle | Reading | Converting | ExtractingText | ExtractingJson | Saving | Done | Error

record ProgressState =
  step :: ProgressStep
  error :: "jsstring option"
  completedSteps :: "ProgressStep set"

subsection \<open>Message literals\<close>

definition msg_no_images :: jsstring where
  "msg_no_images =
    [80, 68, 70, 12363, 12425, 30011, 20687, 12364, 25277, 20986, 12391, 12365, 12414,
     12379, 12435, 12391, 12375, 12383, 12290]"

definition msg_text_unknown :: jsstring where
  "msg_text_unknown =
    [65, 73, 12395, 12424, 12427, 12486, 12461, 12473, 12488, 25277, 20986, 20013, 12395,
     19981, 26126, 12394, 12456, 12521, 12540, 12364, 30330, 29983, 12375, 12414, 12375,
     12383, 12290]"

definition msg_json_unknown :: jsstring where
  "msg_json_unknown =
    [65, 73, 12395, 12424, 12427, 27083, 36896, 21270, 12487, 12540, 12479, 25277, 20986,
     20013, 12395, 19981, 26126, 12394, 12456, 12521, 12540, 12364, 30330, 29983, 12375,
     12414, 12375, 12383, 12290]"

definition msg_extract_unexpected :: jsstring where
  "msg_extract_unexpected =
    [12487, 12540, 12479, 25277, 20986, 20013, 12395, 20104, 26399, 12379, 12396, 12456,
     12521, 12540, 12364, 30330, 29983, 12375, 12414, 12375, 12383, 12290]"

definition msg_nothing_extracted :: jsstring where
  "msg_nothing_extracted =
    [65, 73, 12399, 12459, 12479, 12525, 12464, 12363, 12425, 26377, 21177, 12394, 12487,
     12540, 12479, 12434, 25277, 20986, 12391, 12365, 12414, 12379, 12435, 12391, 12375,
     12383, 12290]"

definition msg_db_save_failed :: jsstring where
  "msg_db_save_failed =
    [12487, 12540, 12479, 12505, 12540, 12473, 12408, 12398, 20445, 23384, 12395, 22833,
     25943, 12375, 12414, 12375, 12383, 12290]"



definition msg_url_unexpected :: jsstring where
  "msg_url_unexpected =
    [85, 82, 76, 12363, 12425, 12398, 12487, 12540, 12479, 21462, 24471, 20013, 12395,
     12456, 12521, 12540, 12364, 30330, 29983, 12375, 12414, 12375, 12383, 12290]"

subsection \<open>State and environment\<close>

text \<open>
  The component's state (\<open>progress\<close>, \<open>chat\<close>, \<open>savedCatalogs\<close>, \<open>selectedCatalog\<close>,
  \<open>isGeneratingSummary\<close>; the file input and the filters play no part in the pipeline
  and are left out), together with what the handlers act on outside the component: the
  collection \<open>catalogs\<close> of the store, and four logs kept for the statements below:
  every value given to \<open>setProgress\<close>, every record handed to \<open>db.saveCatalog\<close>,
  every text sent to the AI model for a summary, and every request handed to \<open>fetch\<close>.
  A chat session is represented by the records that seed it.
\<close>

record AppState =
  progress :: ProgressState
  chat :: "CarSpecification list option"
  savedCatalogs :: "jsstring CatalogRecord list"
  selectedCatalog :: "jsstring CatalogRecord option"
  isGeneratingSummary :: bool
  catalogs :: collection
  progressLog :: "ProgressState list"
  saveLog :: "CatalogData list"
  summaryLog :: "jsstring list"
  fetchLog :: "jsstring list"

text \<open>What reading and rendering the selected PDF file comes to.\<close>

datatype read_outcome =
  ReaderThrows thrown
| NoLoadEvent
| NoResult
| RenderRejects
| Pages "jsstring list"

text \<open>
  Everything a handler obtains from outside the program during one run: the runtime's
  \<open>toLowerCase\<close>, \<open>JSON.parse\<close>, \<open>Date.now()\<close>, \<open>new Date()\<close>, \<open>new URL\<close> and
  \<open>encodeURIComponent\<close>, the settled outcomes of the calls to the AI model, of
  \<open>fetch\<close>, of the image upload and of the Firestore requests, and the outcome of
  \<open>extractCarDataFromWebPage\<close>, which is defined outside the files modelled here.
\<close>

record Env =
  toLowerCase :: "jsstring \<Rightarrow> jsstring"
  jsonParse :: "jsstring \<Rightarrow> thrown + CarSpecification list"
  clock :: "nat \<Rightarrow> nat"
  newDate :: int
  newURL :: "jsstring \<Rightarrow> jsstring + jsstring"
  encodeURIComponent :: "jsstring \<Rightarrow> jsstring + jsstring"
  readPdf :: read_outcome
  textModel :: "jsstring list \<Rightarrow> jsstring settled"
  jsonModel :: "jsstring list \<Rightarrow> jsstring settled"
  summaryModel :: "jsstring \<Rightarrow> jsstring settled"
  extractCarDataFromWebPage ::
    "jsstring \<Rightarrow> jsstring \<Rightarrow> (CarSpecification list \<times> jsstring \<times> jsstring) settled"
  fetch :: "jsstring \<Rightarrow> fetch_outcome"
  uploadImagesToStorage :: "jsstring list \<Rightarrow> jsstring list settled"
  addDoc :: "jsstring settled"
  getDocsFault :: "thrown option"
  updateDocFault :: "thrown option"
  deleteDocFault :: "thrown option"

subsection \<open>State setters\<close>

definition setProgress :: "(ProgressState \<Rightarrow> ProgressState) \<Rightarrow> AppState \<Rightarrow> AppState" where
  "setProgress f s =
     s\<lparr>progress := f (progress s), progressLog := progressLog s @ [f (progress s)]\<rparr>"

definition resetStateForNewFile :: "AppState \<Rightarrow> AppState" where
  "resetStateForNewFile s = s\<lparr>selectedCatalog := None, chat := None\<rparr>"

definition loadCatalogs :: "Env \<Rightarrow> AppState \<Rightarrow> thrown + AppState" where
  "loadCatalogs env s =
     (case getAllCatalogs_fs (getDocsFault env) (catalogs s) of
        Inl err \<Rightarrow> Inl err
      | Inr cs \<Rightarrow> Inr (s\<lparr>savedCatalogs := cs\<rparr>))"

subsection \<open>handleExtractData\<close>

text \<open>
  The two branches are joined with \<open>Promise.allSettled\<close>; \<open>apiErrors\<close> collects the
  message of each rejected branch, text first. \<open>createChat\<close> builds a session object
  locally and is taken not to throw. Five seconds after a run has reached \<open>Done\<close> a
  timer sets the progress back to \<open>Idle\<close>; that happens after the run and is not part
  of the function's result.
\<close>

definition apiErrors ::
  "jsstring settled \<Rightarrow> (CarSpecification list \<times> jsstring) settled \<Rightarrow> jsstring list" where
  "apiErrors textResult jsonResult =
     (case textResult of
        Fulfilled _ \<Rightarrow> []
      | Rejected reason \<Rightarrow> [messageOr reason msg_text_unknown])
     @ (case jsonResult of
          Fulfilled _ \<Rightarrow> []
        | Rejected reason \<Rightarrow> [messageOr reason msg_json_unknown])"

definition handleExtractData :: "Env \<Rightarrow> jsstring list \<Rightarrow> jsstring \<Rightarrow> AppState \<Rightarrow> AppState" where
  "handleExtractData env imgs name s =
     (if imgs = [] then
        setProgress (\<lambda>prev. \<lparr>step = Error, error = Some msg_no_images, completedSteps = {}\<rparr>) s
      else
        (let textResult = extractRawTextFromImages (toLowerCase env) (textModel env) imgs;
             jsonResult = extractCarDataFromImages (toLowerCase env) (jsonModel env)
                            (jsonParse env) (clock env) imgs;
             extractedRawText = (case textResult of Fulfilled v \<Rightarrow> v | Rejected _ \<Rightarrow> []);
             extractedJsonData = (case jsonResult of Fulfilled v \<Rightarrow> v | Rejected _ \<Rightarrow> ([], []));
             s1 = (case jsonResult of
                     Fulfilled v \<Rightarrow> (if fst v \<noteq> [] then s\<lparr>chat := Some (fst v)\<rparr> else s)
                   | Rejected _ \<Rightarrow> s)
         in if apiErrors textResult jsonResult \<noteq> [] then
              setProgress
                (\<lambda>prev. prev\<lparr>step := Error,
                             error := Some (messageOr (JsError (join [10] (apiErrors textResult jsonResult)))
                                              msg_extract_unexpected),
                             completedSteps := completedSteps prev\<rparr>) s1
            else
              (let summarised = (if extractedRawText \<noteq> []
                                 then generateSummary (toLowerCase env) (summaryModel env) extractedRawText
                                 else (Inr [], []));
                   summaryText = (case fst summarised of Inr v \<Rightarrow> v | Inl summaryError \<Rightarrow> []);
                   s2 = s1\<lparr>summaryLog := summaryLog s1 @ snd summarised\<rparr>;
                   s3 = setProgress
                          (\<lambda>prev. prev\<lparr>step := Saving,
                                       completedSteps :=
                                         insert ExtractingJson (insert ExtractingText (completedSteps prev))\<rparr>) s2
               in if extractedRawText = [] \<and> fst extractedJsonData = [] then
                    setProgress
                      (\<lambda>prev. \<lparr>step = Error, error = Some msg_nothing_extracted, completedSteps = {}\<rparr>) s3
                  else
                    (let newCatalogData =
                           \<lparr>fileName = name, createdAt = newDate env,
                            extractedData = fst extractedJsonData, rawJson = snd extractedJsonData,
                            rawText = extractedRawText, summary = Some summaryText,
                            images = Some imgs\<rparr>;
                         saved = saveCatalog_fs (uploadImagesToStorage env) (addDoc env)
                                   newCatalogData (catalogs s3);
                         s4 = s3\<lparr>catalogs := snd saved, saveLog := saveLog s3 @ [newCatalogData]\<rparr>;
                         failed = (\<lambda>dbError.
                                     setProgress
                                       (\<lambda>prev. prev\<lparr>step := Error,
                                                    error := Some (messageOr dbError msg_db_save_failed),
                                                    completedSteps := completedSteps prev\<rparr>) s4)
                     in (case fst saved of
                           Inl dbError \<Rightarrow> failed dbError
                         | Inr newCatalog \<Rightarrow>
                             (case loadCatalogs env s4 of
                                Inl dbError \<Rightarrow> failed dbError
                              | Inr s5 \<Rightarrow>
                                  setProgress
                                    (\<lambda>prev. prev\<lparr>step := Done,
                                                 completedSteps := insert Saving (completedSteps prev)\<rparr>)
                                    (s5\<lparr>selectedCatalog := Some newCatalog\<rparr>)))))))"

subsection \<open>handleFileChange\<close>


subsection \<open>handleUrlSubmit\<close>

definition handleUrlSubmit :: "Env \<Rightarrow> jsstring \<Rightarrow> AppState \<Rightarrow> AppState" where
  "handleUrlSubmit env url s =
     (let s0 = setProgress (\<lambda>prev. \<lparr>step = Reading, error = None, completedSteps = {}\<rparr>)
                 (resetStateForNewFile s);
          fetched = fetchWebPageContent (newURL env) (encodeURIComponent env) (fetch env) url;
          s1 = s0\<lparr>fetchLog := fetchLog s0 @ snd fetched\<rparr>;
          failed = (\<lambda>err st.
                      setProgress
                        (\<lambda>prev. \<lparr>step = Error, error = Some (messageOr err msg_url_unexpected),
                                  completedSteps = {}\<rparr>) st)
      in (case fst fetched of
            Inl err \<Rightarrow> failed err s1
          | Inr htmlContent \<Rightarrow>
              (let s2 = setProgress
                          (\<lambda>prev. prev\<lparr>step := ExtractingJson,
                                       completedSteps := insert Reading (completedSteps prev)\<rparr>) s1
               in (case extractCarDataFromWebPage env htmlContent url of
                     Rejected err \<Rightarrow> failed err s2
                   | Fulfilled (parsedData, rawJson', rawText') \<Rightarrow>
                       (let s3 = (if parsedData \<noteq> [] then s2\<lparr>chat := Some parsedData\<rparr> else s2);
                            s4 = setProgress
                                   (\<lambda>prev. prev\<lparr>step := Saving,
                                                completedSteps :=
                                                  insert ExtractingJson (completedSteps prev)\<rparr>) s3;
                            summarised = (if rawText' \<noteq> []
                                          then generateSummary (toLowerCase env) (summaryModel env) rawText'
                                          else (Inr [], []));
                            summaryText = (case fst summarised of Inr v \<Rightarrow> v | Inl summaryError \<Rightarrow> []);
                            s5 = s4\<lparr>summaryLog := summaryLog s4 @ snd summarised\<rparr>
                        in (case newURL env url of
                              Inl m \<Rightarrow> failed (JsTypeError m) s5
                            | Inr hostname \<Rightarrow>
                                (let newCatalogData =
                                       \<lparr>fileName = hostname, createdAt = newDate env,
                                        extractedData = parsedData, rawJson = rawJson',
                                        rawText = rawText', summary = Some summaryText,
                                        images = Some []\<rparr>;
                                     saved = saveCatalog_fs (uploadImagesToStorage env) (addDoc env)
                                               newCatalogData (catalogs s5);
                                     s6 = s5\<lparr>catalogs := snd saved,
                                             saveLog := saveLog s5 @ [newCatalogData]\<rparr>
                                 in (case fst saved of
                                       Inl err \<Rightarrow> failed err s6
                                     | Inr newCatalog \<Rightarrow>
                                         (case loadCatalogs env s6 of
                                            Inl err \<Rightarrow> failed err s6
                                          | Inr s7 \<Rightarrow>
                                              setProgress
                                                (\<lambda>prev. prev\<lparr>step := Done,
                                                             completedSteps :=
                                                               insert Saving (completedSteps prev)\<rparr>)
                                                (s7\<lparr>selectedCatalog := Some newCatalog\<rparr>))))))))))"

subsection \<open>handleSelectCatalog\<close>

text \<open>A string is falsy when it is absent or empty.\<close>

definition falsy :: "jsstring option \<Rightarrow> bool" where
  "falsy v = (v = None \<or> v = Some [])"

definition handleSelectCatalog :: "Env \<Rightarrow> jsstring CatalogRecord \<Rightarrow> AppState \<Rightarrow> AppState" where
  "handleSelectCatalog env catalog s =
     (let s0 = setProgress (\<lambda>prev. \<lparr>step = Idle, error = None, completedSteps = {}\<rparr>) s;
          s1 = (if extractedData catalog \<noteq> []
                then s0\<lparr>chat := Some (extractedData catalog)\<rparr>
                else s0\<lparr>chat := None\<rparr>)
      in if falsy (summary catalog) \<and> rawText catalog \<noteq> [] then
           (let s2 = s1\<lparr>isGeneratingSummary := True, selectedCatalog := Some catalog\<rparr>;
                summarised = generateSummary (toLowerCase env) (summaryModel env) (rawText catalog);
                s3 = s2\<lparr>summaryLog := summaryLog s2 @ snd summarised\<rparr>
            in (case fst summarised of
                  Inl e \<Rightarrow> s3\<lparr>isGeneratingSummary := False\<rparr>
                | Inr summaryText \<Rightarrow>
                    (let updatedCatalog = catalog\<lparr>summary := Some summaryText\<rparr>;
                         updated = updateCatalog (updateDocFault env) updatedCatalog (catalogs s3)
                     in (case fst updated of
                           Inl e \<Rightarrow> s3\<lparr>catalogs := snd updated, isGeneratingSummary := False\<rparr>
                         | Inr _ \<Rightarrow>
                             s3\<lparr>catalogs := snd updated,
                                selectedCatalog := Some updatedCatalog,
                                savedCatalogs :=
                                  map (\<lambda>c. if ident c = ident updatedCatalog then updatedCatalog else c)
                                    (savedCatalogs s3),
                                isGeneratingSummary := False\<rparr>))))
         else s1\<lparr>selectedCatalog := Some catalog\<rparr>)"

subsection \<open>handleDeleteCatalog\<close>

text \<open>
  Nothing in \<open>handleDeleteCatalog\<close> catches: when the store or the reload rejects,
  the rest of the handler is skipped.
\<close>

definition handleDeleteCatalog :: "Env \<Rightarrow> jsstring \<Rightarrow> AppState \<Rightarrow> AppState" where
  "handleDeleteCatalog env k s =
     (let deleted = deleteCatalog_fs (deleteDocFault env) k (catalogs s);
          s1 = s\<lparr>catalogs := snd deleted\<rparr>
      in (case fst deleted of
            Inl err \<Rightarrow> s1
          | Inr _ \<Rightarrow>
              (case loadCatalogs env s1 of
                 Inl err \<Rightarrow> s1
               | Inr s2 \<Rightarrow>
                   (if map_option ident (selectedCatalog s) = Some k
                    then setProgress (\<lambda>prev. \<lparr>step = Idle, error = None, completedSteps = {}\<rparr>)
                           (s2\<lparr>selectedCatalog := None, chat := None\<rparr>)
                    else s2))))"

section \<open>Invariant of the object store and sample values\<close>

text \<open>
  The records of the object store are in ascending key order and every key in use is
  below the key generator. The empty store satisfies this and both writing operations
  keep it.
\<close>

definition store_ok :: "ObjectStore \<Rightarrow> bool" where
  "store_ok db =
     (sorted (map fst (rows db)) \<and> (\<forall>k \<in> fst ` set (rows db). k < keyGenerator db))"

text \<open>Values used to run the definitions on concrete inputs.\<close>

definition sampleCatalog :: "string \<Rightarrow> int \<Rightarrow> CatalogData" where
  "sampleCatalog name t =
     \<lparr>fileName = ascii name, createdAt = t, extractedData = [], rawJson = [],
      rawText = ascii ''Page1 Page2 Page3'', summary = None, images = None\<rparr>"

text \<open>The item that the JSON text \<open>[{}]\<close> holds: no field is given.\<close>

definition sampleSpec :: CarSpecification where
  "sampleSpec =
     \<lparr>spec_id = [], manufacturer = None, modelName = None, grade = None, price = None,
      issueDate = None, engineType = None, displacement = None, maxPower = None,
      maxTorque = None, fuelEconomy = None, options = None\<rparr>"

text \<open>\<open>toLowerCase\<close> on strings of ASCII characters.\<close>

definition asciiLower :: "jsstring \<Rightarrow> jsstring" where
  "asciiLower s = map (\<lambda>c. if 65 \<le> c \<and> c \<le> 90 then c + 32 else c) s"

definition initialState :: AppState where
  "initialState =
     \<lparr>progress = \<lparr>step = Idle, error = None, completedSteps = {}\<rparr>, chat = None,
      savedCatalogs = [], selectedCatalog = None, isGeneratingSummary = False,
      catalogs = [], progressLog = [], saveLog = [], summaryLog = [], fetchLog = []\<rparr>"

text \<open>
  \<open>encodeURIComponent\<close> on strings of ASCII characters: the letters, the digits and
  \<open>- _ . ! ~ * ' ( )\<close> stay, every other character becomes \<open>%\<close> and two hexadecimal
  digits. This sample refuses a string with any other code unit, where the runtime
  refuses only a lone surrogate.
\<close>

definition hexDigit :: "nat \<Rightarrow> nat" where
  "hexDigit d = (if d < 10 then 48 + d else 55 + d)"

definition unreserved :: "nat \<Rightarrow> bool" where
  "unreserved c =
     ((65 \<le> c \<and> c \<le> 90) \<or> (97 \<le> c \<and> c \<le> 122) \<or> (48 \<le> c \<and> c \<le> 57)
      \<or> c = 45 \<or> c = 95 \<or> c = 46 \<or> c = 33 \<or> c = 126 \<or> c = 42 \<or> c = 39
      \<or> c = 40 \<or> c = 41)"

definition asciiEncode :: "jsstring \<Rightarrow> jsstring + jsstring" where
  "asciiEncode u =
     (if list_ex (\<lambda>c. 128 \<le> c) u then Inl (ascii ''URI malformed'')
      else Inr (concat (map (\<lambda>c. if unreserved c then [c]
                                    else [37, hexDigit (c div 16), hexDigit (c mod 16)]) u)))"

text \<open>
  An environment in which the text model answers \<open>text\<close>, the structured model answers
  \<open>json\<close>, the summary model answers \<open>smry\<close>, \<open>JSON.parse\<close> gives \<open>items\<close>, the
  extraction from a web page gives \<open>items\<close>, the text \<open>json\<close> and the page itself as raw
  text, a string is a URL when it starts with \<open>https://\<close>, and every other request
  succeeds.
\<close>

definition sampleEnv ::
  "jsstring settled \<Rightarrow> jsstring settled \<Rightarrow> jsstring settled \<Rightarrow> CarSpecification list \<Rightarrow> Env" where
  "sampleEnv text json smry items =
     \<lparr>toLowerCase = asciiLower, jsonParse = (\<lambda>t. Inr items), clock = (\<lambda>i. 1700000000000),
      newDate = 1700000000000,
      newURL = (\<lambda>u. if take 8 u = ascii ''https://'' then Inr (drop 8 u)
                     else Inl (ascii ''Invalid URL'')),
      encodeURIComponent = asciiEncode, readPdf = Pages [ascii ''p1'', ascii ''p2'', ascii ''p3''],
      textModel = (\<lambda>imgs. text), jsonModel = (\<lambda>imgs. json), summaryModel = (\<lambda>t. smry),
      extractCarDataFromWebPage =
        (\<lambda>html u. case json of
                    Fulfilled j \<Rightarrow> Fulfilled (items, j, html)
                  | Rejected err \<Rightarrow> Rejected err),
      fetch = (\<lambda>u. Response True 200 (Inr (ascii ''<html>catalog</html>''))),
      uploadImagesToStorage = (\<lambda>imgs. Fulfilled imgs), addDoc = Fulfilled (ascii ''doc1''),
      getDocsFault = None, updateDocFault = None, deleteDocFault = None\<rparr>"

definition samplePages :: "jsstring list" where
  "samplePages = [ascii ''p1'', ascii ''p2'', ascii ''p3'']"

text \<open>The scenarios: which of the calls to the AI model succeed, and with what.\<close>

definition envTextOnly :: Env where
  "envTextOnly =
     sampleEnv (Fulfilled (ascii ''Page1 Page2 Page3''))
       (Rejected (JsError (ascii ''429 Too Many Requests''))) (Fulfilled (ascii ''A summary'')) []"

definition envBothFail :: Env where
  "envBothFail =
     sampleEnv (Rejected (JsError (ascii ''Request timed out after 600000 ms'')))
       (Rejected (JsError (ascii ''429 Too Many Requests''))) (Fulfilled (ascii ''A summary'')) []"



definition envSummaryFails :: Env where
  "envSummaryFails =
     sampleEnv (Fulfilled (ascii ''Page1 Page2 Page3'')) (Fulfilled (ascii ''[{}]''))
       (Rejected (JsError (ascii ''Request timed out after 120000 ms''))) [sampleSpec]"

section \<open>Growth of the completed steps\<close>


section \<open>Auxiliary facts\<close>

subsection \<open>Strings and errors\<close>

lemma trim_all_whitespace:
  assumes "\<forall>c \<in> set s. isWhiteSpace c"
  shows "trim s = []"
proof -
  from assms have blank: "dropWhile isWhiteSpace s = []"
    by (simp add: dropWhile_eq_Nil_conv)
  show ?thesis
    unfolding trim_def blank by simp
qed

lemma handleGeminiError_JsError: "\<exists>m. handleGeminiError lower err ctx = JsError m"
  by (simp add: handleGeminiError_def Let_def)

lemma extractRawText_rejected:
  "extractRawTextFromImages lower model imgs = Rejected r \<Longrightarrow> \<exists>m. r = JsError m"
  using handleGeminiError_JsError [of lower _ ctx_text]
  by (auto simp: extractRawTextFromImages_def split: settled.splits)

lemma extractCarData_rejected:
  "extractCarDataFromImages lower model parse clk imgs = Rejected r \<Longrightarrow> \<exists>m. r = JsError m"
  using handleGeminiError_JsError [of lower _ ctx_json]
  by (auto simp: extractCarDataFromImages_def Let_def split: settled.splits sum.splits if_splits)

subsection \<open>Sorting with a comparator\<close>

lemma mset_insert_by: "mset (insert_by cmp x ys) = add_mset x (mset ys)"
  by (induction ys) simp_all

lemma mset_array_sort: "mset (array_sort cmp xs) = mset xs"
  by (induction xs) (simp_all add: array_sort_def mset_insert_by)

lemma set_insert_by: "set (insert_by cmp x ys) = insert x (set ys)"
  by (induction ys) auto

lemma sorted_insert_by_desc:
  "sorted_wrt (\<lambda>a b. f b \<le> f a) ys \<Longrightarrow>
   sorted_wrt (\<lambda>a b. f b \<le> f a) (insert_by (\<lambda>a b. int (f b) - int (f a)) x ys)"
  by (induction ys) (auto simp: set_insert_by)

lemma sorted_array_sort_desc:
  "sorted_wrt (\<lambda>a b. f b \<le> f a) (array_sort (\<lambda>a b. int (f b) - int (f a)) xs)"
  by (induction xs) (simp_all add: array_sort_def sorted_insert_by_desc)

lemma foldr_insert_by_greatest:
  "\<forall>y \<in> set xs. f y < f x \<Longrightarrow>
   foldr (insert_by (\<lambda>a b. int (f b) - int (f a))) xs [x]
     = x # foldr (insert_by (\<lambda>a b. int (f b) - int (f a))) xs []"
  by (induction xs) auto

lemma array_sort_snoc_greatest:
  "\<forall>y \<in> set xs. f y < f x \<Longrightarrow>
   array_sort (\<lambda>a b. int (f b) - int (f a)) (xs @ [x])
     = x # array_sort (\<lambda>a b. int (f b) - int (f a)) xs"
  by (simp add: array_sort_def foldr_insert_by_greatest)

lemma insort_key_greatest:
  "\<forall>y \<in> set xs. f y < f x \<Longrightarrow> insort_key f x xs = xs @ [x]"
  by (induction xs) auto

subsection \<open>The object store keeps its invariant\<close>

lemma store_ok_empty: "store_ok emptyObjectStore"
  by (simp add: store_ok_def emptyObjectStore_def)

lemma store_ok_save: "store_ok db \<Longrightarrow> store_ok (snd (saveCatalog_idb fault c db))"
  by (auto simp: store_ok_def saveCatalog_idb_def Let_def sorted_insort_key set_insort_key
      split: option.splits)

lemma store_ok_delete: "store_ok db \<Longrightarrow> store_ok (snd (deleteCatalog_idb fault k db))"
  by (auto simp: store_ok_def deleteCatalog_idb_def sorted_filter split: option.splits)

lemma ident_withId: "ident (withId k c) = k"
  by (simp add: withId_def)

lemma withoutId_withId: "withoutId (withId k c) = c"
  by (simp add: withoutId_def withId_def)

lemma createdAt_withId: "createdAt (withId k c) = createdAt c"
  by (simp add: withId_def)

lemma unpack_withId:
  "(\<lambda>r. (ident r, withoutId r)) \<circ> (\<lambda>(k, c). withId k c) = (\<lambda>p. p)"
  by (simp add: fun_eq_iff ident_withId withoutId_withId)

lemma listing_after_save:
  assumes "store_ok db"
  shows "getAllCatalogs_idb None (snd (saveCatalog_idb None c db))
          = Inr (withId (keyGenerator db) c
                 # array_sort (\<lambda>a b. int (ident b) - int (ident a))
                     (map (\<lambda>(k, c). withId k c) (rows db)))"
proof -
  let ?k = "keyGenerator db"
  from assms have below: "\<forall>p \<in> set (rows db). fst p < fst (?k, c)"
    by (auto simp: store_ok_def)
  have snoc: "insort_key fst (?k, c) (rows db) = rows db @ [(?k, c)]"
    using below by (rule insort_key_greatest)
  have lt: "\<forall>r \<in> set (map (\<lambda>(k, c). withId k c) (rows db)). ident r < ident (withId ?k c)"
    using assms by (auto simp: store_ok_def ident_withId)
  show ?thesis
    using array_sort_snoc_greatest [OF lt]
    by (simp add: getAllCatalogs_idb_def saveCatalog_idb_def Let_def snoc)
qed

lemma sorted_listing_fs:
  "sorted_wrt (\<lambda>a b. createdAt b \<le> createdAt a)
     (map (\<lambda>(k, c). withId k c) (sort_key (\<lambda>(k, c). - createdAt c) coll))"
proof -
  have "sorted (map (\<lambda>(k, c). - createdAt c) (sort_key (\<lambda>(k, c). - createdAt c) coll))"
    by (rule sorted_sort_key)
  then show ?thesis
    by (simp add: sorted_map sorted_wrt_map split_def withId_def)
qed

lemma listing_idb:
  "\<exists>rs. getAllCatalogs_idb None db = Inr rs
       \<and> mset (map (\<lambda>r. (ident r, withoutId r)) rs) = mset (rows db)
       \<and> sorted_wrt (\<lambda>a b. ident b \<le> ident a) rs
       \<and> (store_ok db \<longrightarrow>
            getAllCatalogs_idb None (snd (saveCatalog_idb None new db))
              = Inr (withId (keyGenerator db) new # rs))
       \<and> ((\<forall>p \<in> set (rows db). \<forall>q \<in> set (rows db).
               fst p \<le> fst q \<longrightarrow> createdAt (snd p) \<le> createdAt (snd q)) \<longrightarrow>
            sorted_wrt (\<lambda>a b. createdAt b \<le> createdAt a) rs)"
proof -
  let ?rs = "array_sort (\<lambda>a b. int (ident b) - int (ident a))
               (map (\<lambda>(k, c). withId k c) (rows db))"
  have res: "getAllCatalogs_idb None db = Inr ?rs"
    by (simp add: getAllCatalogs_idb_def)
  have "mset (map (\<lambda>r. (ident r, withoutId r)) ?rs)
          = image_mset (\<lambda>r. (ident r, withoutId r))
              (mset (map (\<lambda>(k, c). withId k c) (rows db)))"
    by (simp add: mset_array_sort)
  also have "\<dots> = mset (rows db)"
    by (simp add: multiset.map_comp unpack_withId)
  finally have all: "mset (map (\<lambda>r. (ident r, withoutId r)) ?rs) = mset (rows db)" .
  have srt: "sorted_wrt (\<lambda>a b. ident b \<le> ident a) ?rs"
    by (rule sorted_array_sort_desc)
  have newest: "store_ok db \<longrightarrow>
      getAllCatalogs_idb None (snd (saveCatalog_idb None new db))
        = Inr (withId (keyGenerator db) new # ?rs)"
    using listing_after_save [of db new] by simp
  have bridge: "sorted_wrt (\<lambda>a b. createdAt b \<le> createdAt a) ?rs"
    if mono: "\<forall>p \<in> set (rows db). \<forall>q \<in> set (rows db).
               fst p \<le> fst q \<longrightarrow> createdAt (snd p) \<le> createdAt (snd q)"
  proof (rule sorted_wrt_mono_rel [OF _ srt])
    fix x y
    assume "x \<in> set ?rs" and "y \<in> set ?rs" and le: "ident y \<le> ident x"
    then have "x \<in> set (map (\<lambda>(k, c). withId k c) (rows db))"
      and "y \<in> set (map (\<lambda>(k, c). withId k c) (rows db))"
      using mset_array_sort [of "\<lambda>a b. int (ident b) - int (ident a)"
              "map (\<lambda>(k, c). withId k c) (rows db)"]
      by (metis set_mset_mset)+
    then obtain p q where p: "p \<in> set (rows db)" "x = withId (fst p) (snd p)"
      and q: "q \<in> set (rows db)" "y = withId (fst q) (snd q)"
      by (auto simp: split_def)
    with le mono show "createdAt y \<le> createdAt x"
      by (simp add: ident_withId createdAt_withId)
  qed
  from res all srt newest bridge show ?thesis
    by blast
qed

lemma listing_fs:
  "\<exists>rs. getAllCatalogs_fs None coll = Inr rs
       \<and> mset (map (\<lambda>r. (ident r, withoutId r)) rs) = mset coll
       \<and> sorted_wrt (\<lambda>a b. createdAt b \<le> createdAt a) rs"
  by (simp add: getAllCatalogs_fs_def sorted_listing_fs multiset.map_comp unpack_withId)

subsection \<open>Setting the progress\<close>

lemma setProgress_simps:
  "progress (setProgress f s) = f (progress s)"
  "catalogs (setProgress f s) = catalogs s"
  "saveLog (setProgress f s) = saveLog s"
  "progressLog (setProgress f s) = progressLog s @ [f (progress s)]"
  by (simp_all add: setProgress_def)


subsection \<open>A summary that fails\<close>

lemma pdf_summary_failure:
  assumes "imgs \<noteq> []"
    and "extractRawTextFromImages (toLowerCase env) (textModel env) imgs = Fulfilled t"
    and "extractCarDataFromImages (toLowerCase env) (jsonModel env) (jsonParse env) (clock env) imgs
           = Fulfilled (d, raw)"
    and "t \<noteq> []"
    and "fst (generateSummary (toLowerCase env) (summaryModel env) t) = Inl e"
  shows "saveLog (handleExtractData env imgs name s)
           = saveLog s @ [\<lparr>fileName = name, createdAt = newDate env, extractedData = d,
                           rawJson = raw, rawText = t, summary = Some [], images = Some imgs\<rparr>]
       \<and> (uploadImagesToStorage env imgs = Fulfilled urls \<and> addDoc env = Fulfilled docId
            \<and> getDocsFault env = None \<longrightarrow>
            step (progress (handleExtractData env imgs name s)) = Done
          \<and> error (progress (handleExtractData env imgs name s)) = error (progress s)
          \<and> map_of (catalogs (handleExtractData env imgs name s)) docId
              = Some \<lparr>fileName = name, createdAt = newDate env, extractedData = d,
                       rawJson = raw, rawText = t, summary = Some [], images = Some urls\<rparr>)"
  using assms
  by (cases imgs)
     (auto simp: handleExtractData_def apiErrors_def setProgress_def Let_def saveCatalog_fs_def
        loadCatalogs_def getAllCatalogs_fs_def update_conv' split: settled.splits sum.splits)

lemma url_summary_failure:
  assumes "fst (fetchWebPageContent (newURL env) (encodeURIComponent env) (fetch env) url)
             = Inr html"
    and "extractCarDataFromWebPage env html url = Fulfilled (d, raw, t)"
    and "t \<noteq> []"
    and "fst (generateSummary (toLowerCase env) (summaryModel env) t) = Inl e"
    and "newURL env url = Inr host"
  shows "saveLog (handleUrlSubmit env url s)
           = saveLog s @ [\<lparr>fileName = host, createdAt = newDate env, extractedData = d,
                           rawJson = raw, rawText = t, summary = Some [], images = Some []\<rparr>]
       \<and> (addDoc env = Fulfilled docId \<and> getDocsFault env = None \<longrightarrow>
            step (progress (handleUrlSubmit env url s)) = Done
          \<and> error (progress (handleUrlSubmit env url s)) = None
          \<and> map_of (catalogs (handleUrlSubmit env url s)) docId
              = Some \<lparr>fileName = host, createdAt = newDate env, extractedData = d,
                       rawJson = raw, rawText = t, summary = Some [], images = Some []\<rparr>)"
  using assms
  by (auto simp: handleUrlSubmit_def setProgress_def resetStateForNewFile_def Let_def
      saveCatalog_fs_def loadCatalogs_def getAllCatalogs_fs_def update_conv'
      split: settled.splits sum.splits)

section \<open>The pipeline orchestrator\<close>

text \<open>
  C1, as the code has it. When exactly one extraction branch succeeds and the other
  fails, \<open>handleExtractData\<close> ends in the step \<open>Error\<close> with the failed branch's
  message; the collection of the store is unchanged and no record is handed to
  \<open>db.saveCatalog\<close>.
\<close>

theorem one_branch_fails:
  assumes "imgs \<noteq> []"
    and "extractRawTextFromImages (toLowerCase env) (textModel env) imgs = Fulfilled t
           \<and> extractCarDataFromImages (toLowerCase env) (jsonModel env) (jsonParse env) (clock env) imgs
               = Rejected r
         \<or> extractRawTextFromImages (toLowerCase env) (textModel env) imgs = Rejected r
           \<and> extractCarDataFromImages (toLowerCase env) (jsonModel env) (jsonParse env) (clock env) imgs
               = Fulfilled v"
  shows "step (progress (handleExtractData env imgs name s)) = Error
       \<and> error (progress (handleExtractData env imgs name s)) = Some (message r)
       \<and> catalogs (handleExtractData env imgs name s) = catalogs s
       \<and> saveLog (handleExtractData env imgs name s) = saveLog s"
proof -
  from assms(2) obtain m where r: "r = JsError m"
    using extractRawText_rejected extractCarData_rejected by blast
  from assms(2) show ?thesis
  proof
    assume "extractRawTextFromImages (toLowerCase env) (textModel env) imgs = Fulfilled t
           \<and> extractCarDataFromImages (toLowerCase env) (jsonModel env) (jsonParse env) (clock env) imgs
               = Rejected r"
    then show ?thesis
      using assms(1) r
      by (simp add: handleExtractData_def apiErrors_def messageOr_def setProgress_simps)
  next
    assume "extractRawTextFromImages (toLowerCase env) (textModel env) imgs = Rejected r
           \<and> extractCarDataFromImages (toLowerCase env) (jsonModel env) (jsonParse env) (clock env) imgs
               = Fulfilled v"
    then show ?thesis
      using assms(1) r
      by (simp add: handleExtractData_def apiErrors_def messageOr_def setProgress_simps)
  qed
qed

theorem one_branch_fails_witness:
  "samplePages \<noteq> []
   \<and> extractRawTextFromImages (toLowerCase envTextOnly) (textModel envTextOnly) samplePages
       = Fulfilled (ascii ''Page1 Page2 Page3'')
   \<and> extractCarDataFromImages (toLowerCase envTextOnly) (jsonModel envTextOnly)
        (jsonParse envTextOnly) (clock envTextOnly) samplePages
       = Rejected (JsError (msg_rate_limit_pre @ ctx_json @ ascii '')''))
   \<and> step (progress (handleExtractData envTextOnly samplePages (ascii ''catalog.pdf'') initialState))
       = Error
   \<and> error (progress (handleExtractData envTextOnly samplePages (ascii ''catalog.pdf'') initialState))
       = Some (msg_rate_limit_pre @ ctx_json @ ascii '')'')
   \<and> catalogs (handleExtractData envTextOnly samplePages (ascii ''catalog.pdf'') initialState) = []
   \<and> saveLog (handleExtractData envTextOnly samplePages (ascii ''catalog.pdf'') initialState) = []"
  using one_branch_fails [where env = envTextOnly and imgs = samplePages
      and t = "ascii ''Page1 Page2 Page3''"
      and r = "JsError (msg_rate_limit_pre @ ctx_json @ ascii '')'')"
      and name = "ascii ''catalog.pdf''" and s = initialState]
  by (simp add: extractRawTextFromImages_def extractCarDataFromImages_def handleGeminiError_def
      envTextOnly_def sampleEnv_def asciiLower_def samplePages_def initialState_def trim_def isWhiteSpace_def
      ascii_def Let_def)

text \<open>
  C1, as the specification states it, fails on the scenario it gives: the text branch
  returns \<open>Page1 Page2 Page3\<close> and the structured branch is rate limited. The run ends
  in \<open>Error\<close>, not \<open>Done\<close>, and the store holds no record.
\<close>

theorem one_branch_fails_counterexample:
  "extractRawTextFromImages (toLowerCase envTextOnly) (textModel envTextOnly) samplePages
       = Fulfilled (ascii ''Page1 Page2 Page3'')
   \<and> extractCarDataFromImages (toLowerCase envTextOnly) (jsonModel envTextOnly)
        (jsonParse envTextOnly) (clock envTextOnly) samplePages
       = Rejected (JsError (msg_rate_limit_pre @ ctx_json @ ascii '')''))
   \<and> step (progress (handleExtractData envTextOnly samplePages (ascii ''catalog.pdf'') initialState))
       \<noteq> Done
   \<and> catalogs (handleExtractData envTextOnly samplePages (ascii ''catalog.pdf'') initialState) = []"
  by (simp add: handleExtractData_def extractRawTextFromImages_def extractCarDataFromImages_def
      handleGeminiError_def envTextOnly_def sampleEnv_def asciiLower_def samplePages_def initialState_def
      apiErrors_def messageOr_def setProgress_def trim_def isWhiteSpace_def ascii_def Let_def)

text \<open>
  C2. When both extraction branches fail, \<open>handleExtractData\<close> ends in the step
  \<open>Error\<close>, the error message is the text branch's message, a line feed and the
  structured branch's message, the collection of the store is unchanged and no record is
  handed to \<open>db.saveCatalog\<close>.
\<close>

theorem both_branches_fail:
  assumes "imgs \<noteq> []"
    and "extractRawTextFromImages (toLowerCase env) (textModel env) imgs = Rejected rt"
    and "extractCarDataFromImages (toLowerCase env) (jsonModel env) (jsonParse env) (clock env) imgs
           = Rejected rj"
  shows "step (progress (handleExtractData env imgs name s)) = Error
       \<and> error (progress (handleExtractData env imgs name s)) = Some (message rt @ [10] @ message rj)
       \<and> catalogs (handleExtractData env imgs name s) = catalogs s
       \<and> saveLog (handleExtractData env imgs name s) = saveLog s"
proof -
  from assms(2) obtain mt where rt: "rt = JsError mt"
    using extractRawText_rejected by blast
  from assms(3) obtain mj where rj: "rj = JsError mj"
    using extractCarData_rejected by blast
  show ?thesis
    using assms rt rj
    by (simp add: handleExtractData_def apiErrors_def messageOr_def setProgress_simps)
qed

theorem both_branches_fail_witness:
  "samplePages \<noteq> []
   \<and> extractRawTextFromImages (toLowerCase envBothFail) (textModel envBothFail) samplePages
       = Rejected (JsError (msg_ai_pre @ ctx_text @ msg_timeout_post))
   \<and> extractCarDataFromImages (toLowerCase envBothFail) (jsonModel envBothFail)
        (jsonParse envBothFail) (clock envBothFail) samplePages
       = Rejected (JsError (msg_rate_limit_pre @ ctx_json @ ascii '')''))
   \<and> step (progress (handleExtractData envBothFail samplePages (ascii ''catalog.pdf'') initialState))
       = Error
   \<and> error (progress (handleExtractData envBothFail samplePages (ascii ''catalog.pdf'') initialState))
       = Some ((msg_ai_pre @ ctx_text @ msg_timeout_post) @ [10]
               @ (msg_rate_limit_pre @ ctx_json @ ascii '')''))
   \<and> catalogs (handleExtractData envBothFail samplePages (ascii ''catalog.pdf'') initialState) = []
   \<and> saveLog (handleExtractData envBothFail samplePages (ascii ''catalog.pdf'') initialState) = []"
  using both_branches_fail [where env = envBothFail and imgs = samplePages
      and rt = "JsError (msg_ai_pre @ ctx_text @ msg_timeout_post)"
      and rj = "JsError (msg_rate_limit_pre @ ctx_json @ ascii '')'')"
      and name = "ascii ''catalog.pdf''" and s = initialState]
  by (simp add: extractRawTextFromImages_def extractCarDataFromImages_def handleGeminiError_def
      envBothFail_def sampleEnv_def asciiLower_def samplePages_def initialState_def ascii_def Let_def)




text \<open>
  C6. In every run in which a summary is attempted and its generation throws, the run
  goes on. In the PDF run (both branches fulfilled, text not empty) \<open>handleExtractData\<close>
  hands the assembled record, with an empty summary, to \<open>db.saveCatalog\<close>; in the URL
  run (page fetched, extraction fulfilled, raw text not empty) \<open>handleUrlSubmit\<close> does
  the same. In both, when the store accepts the record and the reload succeeds, the run
  ends in the step \<open>Done\<close> with no error message set by it and the record, with its
  empty summary, is in the store.
\<close>

theorem summary_failure_swallowed:
  "(imgs \<noteq> []
      \<and> extractRawTextFromImages (toLowerCase env) (textModel env) imgs = Fulfilled t
      \<and> extractCarDataFromImages (toLowerCase env) (jsonModel env) (jsonParse env) (clock env) imgs
          = Fulfilled (d, raw)
      \<and> t \<noteq> []
      \<and> fst (generateSummary (toLowerCase env) (summaryModel env) t) = Inl e
    \<longrightarrow>
      saveLog (handleExtractData env imgs name s)
        = saveLog s @ [\<lparr>fileName = name, createdAt = newDate env, extractedData = d,
                        rawJson = raw, rawText = t, summary = Some [], images = Some imgs\<rparr>]
      \<and> (uploadImagesToStorage env imgs = Fulfilled urls \<and> addDoc env = Fulfilled docId
           \<and> getDocsFault env = None \<longrightarrow>
           step (progress (handleExtractData env imgs name s)) = Done
         \<and> error (progress (handleExtractData env imgs name s)) = error (progress s)
         \<and> map_of (catalogs (handleExtractData env imgs name s)) docId
             = Some \<lparr>fileName = name, createdAt = newDate env, extractedData = d,
                      rawJson = raw, rawText = t, summary = Some [], images = Some urls\<rparr>))
   \<and> (fst (fetchWebPageContent (newURL env) (encodeURIComponent env) (fetch env) url) = Inr html
      \<and> extractCarDataFromWebPage env html url = Fulfilled (wd, wraw, wt)
      \<and> wt \<noteq> []
      \<and> fst (generateSummary (toLowerCase env) (summaryModel env) wt) = Inl we
      \<and> newURL env url = Inr host
    \<longrightarrow>
      saveLog (handleUrlSubmit env url s)
        = saveLog s @ [\<lparr>fileName = host, createdAt = newDate env, extractedData = wd,
                        rawJson = wraw, rawText = wt, summary = Some [], images = Some []\<rparr>]
      \<and> (addDoc env = Fulfilled docId \<and> getDocsFault env = None \<longrightarrow>
           step (progress (handleUrlSubmit env url s)) = Done
         \<and> error (progress (handleUrlSubmit env url s)) = None
         \<and> map_of (catalogs (handleUrlSubmit env url s)) docId
             = Some \<lparr>fileName = host, createdAt = newDate env, extractedData = wd,
                      rawJson = wraw, rawText = wt, summary = Some [], images = Some []\<rparr>))"
proof (rule conjI)
  show "imgs \<noteq> []
      \<and> extractRawTextFromImages (toLowerCase env) (textModel env) imgs = Fulfilled t
      \<and> extractCarDataFromImages (toLowerCase env) (jsonModel env) (jsonParse env) (clock env) imgs
          = Fulfilled (d, raw)
      \<and> t \<noteq> []
      \<and> fst (generateSummary (toLowerCase env) (summaryModel env) t) = Inl e
    \<longrightarrow>
      saveLog (handleExtractData env imgs name s)
        = saveLog s @ [\<lparr>fileName = name, createdAt = newDate env, extractedData = d,
                        rawJson = raw, rawText = t, summary = Some [], images = Some imgs\<rparr>]
      \<and> (uploadImagesToStorage env imgs = Fulfilled urls \<and> addDoc env = Fulfilled docId
           \<and> getDocsFault env = None \<longrightarrow>
           step (progress (handleExtractData env imgs name s)) = Done
         \<and> error (progress (handleExtractData env imgs name s)) = error (progress s)
         \<and> map_of (catalogs (handleExtractData env imgs name s)) docId
             = Some \<lparr>fileName = name, createdAt = newDate env, extractedData = d,
                      rawJson = raw, rawText = t, summary = Some [], images = Some urls\<rparr>)"
    using pdf_summary_failure [of imgs env t d raw e name s urls docId] by blast
next
  show "fst (fetchWebPageContent (newURL env) (encodeURIComponent env) (fetch env) url) = Inr html
      \<and> extractCarDataFromWebPage env html url = Fulfilled (wd, wraw, wt)
      \<and> wt \<noteq> []
      \<and> fst (generateSummary (toLowerCase env) (summaryModel env) wt) = Inl we
      \<and> newURL env url = Inr host
    \<longrightarrow>
      saveLog (handleUrlSubmit env url s)
        = saveLog s @ [\<lparr>fileName = host, createdAt = newDate env, extractedData = wd,
                        rawJson = wraw, rawText = wt, summary = Some [], images = Some []\<rparr>]
      \<and> (addDoc env = Fulfilled docId \<and> getDocsFault env = None \<longrightarrow>
           step (progress (handleUrlSubmit env url s)) = Done
         \<and> error (progress (handleUrlSubmit env url s)) = None
         \<and> map_of (catalogs (handleUrlSubmit env url s)) docId
             = Some \<lparr>fileName = host, createdAt = newDate env, extractedData = wd,
                      rawJson = wraw, rawText = wt, summary = Some [], images = Some []\<rparr>)"
    using url_summary_failure [of env url html wd wraw wt we host s docId] by blast
qed

theorem summary_failure_swallowed_witness:
  "samplePages \<noteq> []
   \<and> extractRawTextFromImages (toLowerCase envSummaryFails) (textModel envSummaryFails) samplePages
       = Fulfilled (ascii ''Page1 Page2 Page3'')
   \<and> extractCarDataFromImages (toLowerCase envSummaryFails) (jsonModel envSummaryFails)
        (jsonParse envSummaryFails) (clock envSummaryFails) samplePages
       = Fulfilled ([sampleSpec\<lparr>spec_id := ascii ''1700000000000-0''\<rparr>], ascii ''[{}]'')
   \<and> fst (generateSummary (toLowerCase envSummaryFails) (summaryModel envSummaryFails)
           (ascii ''Page1 Page2 Page3''))
       = Inl (JsError (msg_ai_pre @ ctx_summary @ msg_timeout_post))
   \<and> step (progress (handleExtractData envSummaryFails samplePages (ascii ''catalog.pdf'')
                       initialState)) = Done
   \<and> error (progress (handleExtractData envSummaryFails samplePages (ascii ''catalog.pdf'')
                        initialState)) = None
   \<and> map_option summary
        (map_of (catalogs (handleExtractData envSummaryFails samplePages (ascii ''catalog.pdf'')
                             initialState)) (ascii ''doc1'')) = Some (Some [])
   \<and> fst (fetchWebPageContent (newURL envSummaryFails) (encodeURIComponent envSummaryFails)
           (fetch envSummaryFails) (ascii ''https://example.com''))
       = Inr (ascii ''<html>catalog</html>'')
   \<and> fst (generateSummary (toLowerCase envSummaryFails) (summaryModel envSummaryFails)
           (ascii ''<html>catalog</html>''))
       = Inl (JsError (msg_ai_pre @ ctx_summary @ msg_timeout_post))
   \<and> step (progress (handleUrlSubmit envSummaryFails (ascii ''https://example.com'') initialState))
       = Done
   \<and> error (progress (handleUrlSubmit envSummaryFails (ascii ''https://example.com'') initialState))
       = None
   \<and> map_of (catalogs (handleUrlSubmit envSummaryFails (ascii ''https://example.com'')
                          initialState)) (ascii ''doc1'')
       = Some \<lparr>fileName = ascii ''example.com'', createdAt = 1700000000000,
                extractedData = [sampleSpec], rawJson = ascii ''[{}]'',
                rawText = ascii ''<html>catalog</html>'', summary = Some [], images = Some []\<rparr>"
proof -
  have p1: "samplePages \<noteq> []"
    by (simp add: samplePages_def)
  have p2: "extractRawTextFromImages (toLowerCase envSummaryFails) (textModel envSummaryFails)
              samplePages = Fulfilled (ascii ''Page1 Page2 Page3'')"
    by (simp add: extractRawTextFromImages_def envSummaryFails_def sampleEnv_def trim_def
        isWhiteSpace_def ascii_def)
  have p3: "extractCarDataFromImages (toLowerCase envSummaryFails) (jsonModel envSummaryFails)
        (jsonParse envSummaryFails) (clock envSummaryFails) samplePages
       = Fulfilled ([sampleSpec\<lparr>spec_id := ascii ''1700000000000-0''\<rparr>], ascii ''[{}]'')"
    by (simp add: extractCarDataFromImages_def envSummaryFails_def sampleEnv_def trim_def
        isWhiteSpace_def ascii_def Let_def show_nat.simps)
  have p4: "ascii ''Page1 Page2 Page3'' \<noteq> []"
    by (simp add: ascii_def)
  have p5: "fst (generateSummary (toLowerCase envSummaryFails) (summaryModel envSummaryFails)
           (ascii ''Page1 Page2 Page3''))
       = Inl (JsError (msg_ai_pre @ ctx_summary @ msg_timeout_post))"
    by (simp add: generateSummary_def handleGeminiError_def envSummaryFails_def sampleEnv_def
        asciiLower_def trim_def isWhiteSpace_def ascii_def Let_def)
  have store: "uploadImagesToStorage envSummaryFails samplePages = Fulfilled samplePages
     \<and> addDoc envSummaryFails = Fulfilled (ascii ''doc1'') \<and> getDocsFault envSummaryFails = None"
    by (simp add: envSummaryFails_def sampleEnv_def)
  have u1: "fst (fetchWebPageContent (newURL envSummaryFails) (encodeURIComponent envSummaryFails)
           (fetch envSummaryFails) (ascii ''https://example.com''))
       = Inr (ascii ''<html>catalog</html>'')"
    by (simp add: fetchWebPageContent_def envSummaryFails_def sampleEnv_def asciiEncode_def
        ascii_def Let_def)
  have u2: "extractCarDataFromWebPage envSummaryFails (ascii ''<html>catalog</html>'')
              (ascii ''https://example.com'')
            = Fulfilled ([sampleSpec], ascii ''[{}]'', ascii ''<html>catalog</html>'')"
    by (simp add: envSummaryFails_def sampleEnv_def)
  have u3: "ascii ''<html>catalog</html>'' \<noteq> []"
    by (simp add: ascii_def)
  have u4: "fst (generateSummary (toLowerCase envSummaryFails) (summaryModel envSummaryFails)
           (ascii ''<html>catalog</html>''))
       = Inl (JsError (msg_ai_pre @ ctx_summary @ msg_timeout_post))"
    by (simp add: generateSummary_def handleGeminiError_def envSummaryFails_def sampleEnv_def
        asciiLower_def trim_def isWhiteSpace_def ascii_def Let_def)
  have u5: "newURL envSummaryFails (ascii ''https://example.com'') = Inr (ascii ''example.com'')"
    by (simp add: envSummaryFails_def sampleEnv_def ascii_def)
  have date: "newDate envSummaryFails = 1700000000000"
    by (simp add: envSummaryFails_def sampleEnv_def)
  have init: "error (progress initialState) = None"
    by (simp add: initialState_def)
  from summary_failure_swallowed [where env = envSummaryFails and imgs = samplePages
      and t = "ascii ''Page1 Page2 Page3''"
      and d = "[sampleSpec\<lparr>spec_id := ascii ''1700000000000-0''\<rparr>]" and raw = "ascii ''[{}]''"
      and e = "JsError (msg_ai_pre @ ctx_summary @ msg_timeout_post)"
      and urls = samplePages and docId = "ascii ''doc1''"
      and name = "ascii ''catalog.pdf''" and s = initialState
      and url = "ascii ''https://example.com''" and html = "ascii ''<html>catalog</html>''"
      and wd = "[sampleSpec]" and wraw = "ascii ''[{}]''" and wt = "ascii ''<html>catalog</html>''"
      and we = "JsError (msg_ai_pre @ ctx_summary @ msg_timeout_post)"
      and host = "ascii ''example.com''"]
    p1 p2 p3 p4 p5 store u1 u2 u3 u4 u5 date init
  show ?thesis
    by simp
qed




section \<open>The URL entry point\<close>

text \<open>
  C7. When \<open>new URL(url)\<close> throws, \<open>fetchWebPageContent\<close> throws an error and hands
  nothing to \<open>fetch\<close>; the message is the invalid-URL message when the \<open>TypeError\<close>'s
  message contains \<open>URL\<close>, and otherwise the fetch-failure message around it. The run
  started by \<open>handleUrlSubmit\<close> then ends in the step \<open>Error\<close> with that message,
  without a request to \<open>fetch\<close> and without touching the store.
\<close>

theorem invalid_url_no_fetch:
  assumes "newURL env url = Inl m"
  shows "fetchWebPageContent (newURL env) (encodeURIComponent env) (fetch env) url
           = (Inl (JsError (if str_includes m (ascii ''URL'') then msg_invalid_url
                            else msg_fetch_failed_pre @ m)), [])
       \<and> fetchLog (handleUrlSubmit env url s) = fetchLog s
       \<and> step (progress (handleUrlSubmit env url s)) = Error
       \<and> error (progress (handleUrlSubmit env url s))
           = Some (if str_includes m (ascii ''URL'') then msg_invalid_url
                   else msg_fetch_failed_pre @ m)
       \<and> catalogs (handleUrlSubmit env url s) = catalogs s
       \<and> saveLog (handleUrlSubmit env url s) = saveLog s"
  using assms
  by (simp add: fetchWebPageContent_def rethrowFetchError_def handleUrlSubmit_def Let_def
      setProgress_def resetStateForNewFile_def messageOr_def)

theorem invalid_url_no_fetch_witness:
  "newURL envTextOnly (ascii ''not a url'') = Inl (ascii ''Invalid URL'')
   \<and> fetchWebPageContent (newURL envTextOnly) (encodeURIComponent envTextOnly) (fetch envTextOnly)
        (ascii ''not a url'') = (Inl (JsError msg_invalid_url), [])
   \<and> fetchLog (handleUrlSubmit envTextOnly (ascii ''not a url'') initialState) = []
   \<and> step (progress (handleUrlSubmit envTextOnly (ascii ''not a url'') initialState)) = Error
   \<and> error (progress (handleUrlSubmit envTextOnly (ascii ''not a url'') initialState))
       = Some msg_invalid_url
   \<and> catalogs (handleUrlSubmit envTextOnly (ascii ''not a url'') initialState) = []"
proof -
  have parse: "newURL envTextOnly (ascii ''not a url'') = Inl (ascii ''Invalid URL'')"
    by (simp add: envTextOnly_def sampleEnv_def ascii_def)
  have inc: "str_includes (ascii ''Invalid URL'') (ascii ''URL'')"
    by (simp add: ascii_def)
  from invalid_url_no_fetch [OF parse, of initialState] parse inc
  show ?thesis
    by (simp add: initialState_def)
qed

section \<open>Lazy summary on selection\<close>

text \<open>
  C8. When a record whose summary is absent (or empty) and whose raw text is not empty
  is selected, and the store holds that record, \<open>handleSelectCatalog\<close> generates a
  summary; when that succeeds and the update is accepted, the store's document under
  the same identifier is the record with the summary set and every other field as it
  was, no other document changes, and no identifier is added or removed.
\<close>

theorem lazy_summary_persisted:
  assumes "falsy (summary catalog)" and "rawText catalog \<noteq> []"
    and "map_of (catalogs s) (ident catalog) = Some (withoutId catalog)"
    and "fst (generateSummary (toLowerCase env) (summaryModel env) (rawText catalog)) = Inr sm"
    and "updateDocFault env = None"
  shows "map_of (catalogs (handleSelectCatalog env catalog s)) (ident catalog)
           = Some ((withoutId catalog)\<lparr>summary := Some sm\<rparr>)
       \<and> (\<forall>k. k \<noteq> ident catalog \<longrightarrow>
             map_of (catalogs (handleSelectCatalog env catalog s)) k = map_of (catalogs s) k)
       \<and> map fst (catalogs (handleSelectCatalog env catalog s)) = map fst (catalogs s)
       \<and> selectedCatalog (handleSelectCatalog env catalog s) = Some (catalog\<lparr>summary := Some sm\<rparr>)"
proof -
  have upd: "updateFields (withoutId catalog) (withoutId (catalog\<lparr>summary := Some sm\<rparr>))
               = (withoutId catalog)\<lparr>summary := Some sm\<rparr>"
    by (simp add: updateFields_def withoutId_def split: option.splits)
  have keys: "map fst (AList.update (ident catalog) v (catalogs s)) = map fst (catalogs s)" for v
    using map_of_SomeD [OF assms(3)] by (force simp: update_keys)
  show ?thesis
    using assms upd keys
    by (simp add: handleSelectCatalog_def Let_def updateCatalog_def setProgress_def update_conv')
qed

theorem lazy_summary_persisted_witness:
  "falsy (summary (withId (ascii ''doc1'') (sampleCatalog ''catalog.pdf'' 5)))
   \<and> rawText (withId (ascii ''doc1'') (sampleCatalog ''catalog.pdf'' 5)) \<noteq> []
   \<and> fst (generateSummary (toLowerCase envTextOnly) (summaryModel envTextOnly)
           (rawText (withId (ascii ''doc1'') (sampleCatalog ''catalog.pdf'' 5))))
       = Inr (ascii ''A summary'')
   \<and> updateDocFault envTextOnly = None
   \<and> catalogs (handleSelectCatalog envTextOnly (withId (ascii ''doc1'') (sampleCatalog ''catalog.pdf'' 5))
        (initialState\<lparr>catalogs := [(ascii ''doc1'', sampleCatalog ''catalog.pdf'' 5)]\<rparr>))
       = [(ascii ''doc1'', (sampleCatalog ''catalog.pdf'' 5)\<lparr>summary := Some (ascii ''A summary'')\<rparr>)]"
proof -
  let ?c = "withId (ascii ''doc1'') (sampleCatalog ''catalog.pdf'' 5)"
  let ?s = "initialState\<lparr>catalogs := [(ascii ''doc1'', sampleCatalog ''catalog.pdf'' 5)]\<rparr>"
  have h1: "falsy (summary ?c)"
    by (simp add: falsy_def withId_def sampleCatalog_def)
  have h2: "rawText ?c \<noteq> []"
    by (simp add: withId_def sampleCatalog_def ascii_def)
  have h3: "map_of (catalogs ?s) (ident ?c) = Some (withoutId ?c)"
    by (simp add: withId_def withoutId_def sampleCatalog_def)
  have h4: "fst (generateSummary (toLowerCase envTextOnly) (summaryModel envTextOnly) (rawText ?c))
              = Inr (ascii ''A summary'')"
    by (simp add: generateSummary_def envTextOnly_def sampleEnv_def withId_def sampleCatalog_def
        trim_def isWhiteSpace_def ascii_def)
  have h5: "updateDocFault envTextOnly = None"
    by (simp add: envTextOnly_def sampleEnv_def)
  have run: "catalogs (handleSelectCatalog envTextOnly ?c ?s)
       = [(ascii ''doc1'', (sampleCatalog ''catalog.pdf'' 5)\<lparr>summary := Some (ascii ''A summary'')\<rparr>)]"
    using h2 h4 h5
    by (simp add: handleSelectCatalog_def updateCatalog_def updateFields_def falsy_def
        setProgress_def withId_def withoutId_def sampleCatalog_def initialState_def Let_def)
  from lazy_summary_persisted [OF h1 h2 h3 h4 h5] h1 h2 h4 h5 run
  show ?thesis by simp
qed

section \<open>The catalog store\<close>

text \<open>
  C4, as the code has it. Deleting an identifier that is not in the store is a silent
  success in both stores: the promise is fulfilled, the store is unchanged, and no
  error of any kind is produced, provided the request itself does not fail (then the
  request's own error is passed on and the store is equally unchanged). The caller
  \<open>handleDeleteCatalog\<close> leaves the collection as it was.
\<close>

theorem deleteCatalog_absent:
  assumes "k \<notin> fst ` set (rows db)" and "j \<notin> fst ` set coll" and "catalogs s = coll"
  shows "deleteCatalog_idb fault k db
           = ((case fault of None \<Rightarrow> Inr () | Some err \<Rightarrow> Inl err), db)
       \<and> deleteCatalog_fs fault j coll
           = ((case fault of None \<Rightarrow> Inr () | Some err \<Rightarrow> Inl err), coll)
       \<and> catalogs (handleDeleteCatalog env j s) = coll"
proof -
  from assms(1) have "filter (\<lambda>(k', c). k' \<noteq> k) (rows db) = rows db"
    by (force simp: filter_id_conv)
  then show ?thesis
    using assms(2,3)
    by (auto simp: deleteCatalog_idb_def deleteCatalog_fs_def handleDeleteCatalog_def Let_def
        loadCatalogs_def setProgress_def split: option.splits sum.splits)
qed

theorem deleteCatalog_absent_witness:
  "7 \<notin> fst ` set (rows \<lparr>rows = [(1, sampleCatalog ''a.pdf'' 5)], keyGenerator = 2\<rparr>)
   \<and> ascii ''missing'' \<notin> fst ` set [(ascii ''doc1'', sampleCatalog ''a.pdf'' 5)]
   \<and> deleteCatalog_idb None 7 \<lparr>rows = [(1, sampleCatalog ''a.pdf'' 5)], keyGenerator = 2\<rparr>
       = (Inr (), \<lparr>rows = [(1, sampleCatalog ''a.pdf'' 5)], keyGenerator = 2\<rparr>)
   \<and> deleteCatalog_fs None (ascii ''missing'') [(ascii ''doc1'', sampleCatalog ''a.pdf'' 5)]
       = (Inr (), [(ascii ''doc1'', sampleCatalog ''a.pdf'' 5)])"
  using deleteCatalog_absent [where k = 7
      and db = "\<lparr>rows = [(1, sampleCatalog ''a.pdf'' 5)], keyGenerator = 2\<rparr>"
      and j = "ascii ''missing''" and coll = "[(ascii ''doc1'', sampleCatalog ''a.pdf'' 5)]"
      and s = "initialState\<lparr>catalogs := [(ascii ''doc1'', sampleCatalog ''a.pdf'' 5)]\<rparr>"
      and fault = None and env = envTextOnly]
  by (simp add: ascii_def)

text \<open>
  C4, as the specification states it, fails: deleting the absent identifier 7 from an
  object store that holds one record under 1 is fulfilled, not rejected, and so is
  deleting an absent document from the collection.
\<close>

theorem deleteCatalog_not_found_counterexample:
  "7 \<notin> fst ` set (rows \<lparr>rows = [(1, sampleCatalog ''a.pdf'' 5)], keyGenerator = 2\<rparr>)
   \<and> fst (deleteCatalog_idb None 7 \<lparr>rows = [(1, sampleCatalog ''a.pdf'' 5)], keyGenerator = 2\<rparr>)
       = Inr ()
   \<and> ascii ''missing'' \<notin> fst ` set [(ascii ''doc1'', sampleCatalog ''a.pdf'' 5)]
   \<and> fst (deleteCatalog_fs None (ascii ''missing'') [(ascii ''doc1'', sampleCatalog ''a.pdf'' 5)])
       = Inr ()"
  by (simp add: deleteCatalog_idb_def deleteCatalog_fs_def ascii_def)

text \<open>
  C9, as the code has it. Listing returns every stored record, each with the
  identifier and the fields it is stored under. On IndexedDB the listing is by
  descending identifier, which is the order of saving: a record saved into a store that
  satisfies the invariant is listed first, before the previous listing; the listing is
  by descending \<open>createdAt\<close> as well when \<open>createdAt\<close> does not decrease from one
  stored record to the next in key order. On Firestore the listing is by descending
  \<open>createdAt\<close>.
\<close>

theorem getAllCatalogs_order:
  "(\<exists>rs. getAllCatalogs_idb None db = Inr rs
         \<and> mset (map (\<lambda>r. (ident r, withoutId r)) rs) = mset (rows db)
         \<and> sorted_wrt (\<lambda>a b. ident b \<le> ident a) rs
         \<and> (store_ok db \<longrightarrow>
              getAllCatalogs_idb None (snd (saveCatalog_idb None new db))
                = Inr (withId (keyGenerator db) new # rs))
         \<and> ((\<forall>p \<in> set (rows db). \<forall>q \<in> set (rows db).
                 fst p \<le> fst q \<longrightarrow> createdAt (snd p) \<le> createdAt (snd q)) \<longrightarrow>
              sorted_wrt (\<lambda>a b. createdAt b \<le> createdAt a) rs))
   \<and> (\<exists>rs. getAllCatalogs_fs None coll = Inr rs
         \<and> mset (map (\<lambda>r. (ident r, withoutId r)) rs) = mset coll
         \<and> sorted_wrt (\<lambda>a b. createdAt b \<le> createdAt a) rs)"
  using listing_idb [of db new] listing_fs [of coll] by simp

theorem getAllCatalogs_order_witness:
  "store_ok \<lparr>rows = [(1, sampleCatalog ''a.pdf'' 5), (2, sampleCatalog ''b.pdf'' 9)],
             keyGenerator = 3\<rparr>
   \<and> getAllCatalogs_idb None
        \<lparr>rows = [(1, sampleCatalog ''a.pdf'' 5), (2, sampleCatalog ''b.pdf'' 9)], keyGenerator = 3\<rparr>
       = Inr [withId 2 (sampleCatalog ''b.pdf'' 9), withId 1 (sampleCatalog ''a.pdf'' 5)]
   \<and> getAllCatalogs_idb None
        (snd (saveCatalog_idb None (sampleCatalog ''c.pdf'' 7)
           \<lparr>rows = [(1, sampleCatalog ''a.pdf'' 5), (2, sampleCatalog ''b.pdf'' 9)],
            keyGenerator = 3\<rparr>))
       = Inr [withId 3 (sampleCatalog ''c.pdf'' 7), withId 2 (sampleCatalog ''b.pdf'' 9),
              withId 1 (sampleCatalog ''a.pdf'' 5)]
   \<and> sorted_wrt (\<lambda>a b. createdAt b \<le> createdAt a)
        [withId (2::nat) (sampleCatalog ''b.pdf'' 9), withId 1 (sampleCatalog ''a.pdf'' 5)]
   \<and> getAllCatalogs_fs None
        [(ascii ''x'', sampleCatalog ''a.pdf'' 5), (ascii ''y'', sampleCatalog ''b.pdf'' 9),
         (ascii ''z'', sampleCatalog ''c.pdf'' 7)]
       = Inr [withId (ascii ''y'') (sampleCatalog ''b.pdf'' 9),
              withId (ascii ''z'') (sampleCatalog ''c.pdf'' 7),
              withId (ascii ''x'') (sampleCatalog ''a.pdf'' 5)]"
proof -
  let ?db = "\<lparr>rows = [(1, sampleCatalog ''a.pdf'' 5), (2, sampleCatalog ''b.pdf'' 9)],
              keyGenerator = 3\<rparr>"
  have ok: "store_ok ?db"
    by (simp add: store_ok_def)
  have mono: "\<forall>p \<in> set (rows ?db). \<forall>q \<in> set (rows ?db).
                 fst p \<le> fst q \<longrightarrow> createdAt (snd p) \<le> createdAt (snd q)"
    by (simp add: sampleCatalog_def)
  have listing: "getAllCatalogs_idb None ?db
       = Inr [withId 2 (sampleCatalog ''b.pdf'' 9), withId 1 (sampleCatalog ''a.pdf'' 5)]"
    by (simp add: getAllCatalogs_idb_def array_sort_def ident_withId)
  have fs: "getAllCatalogs_fs None
        [(ascii ''x'', sampleCatalog ''a.pdf'' 5), (ascii ''y'', sampleCatalog ''b.pdf'' 9),
         (ascii ''z'', sampleCatalog ''c.pdf'' 7)]
       = Inr [withId (ascii ''y'') (sampleCatalog ''b.pdf'' 9),
              withId (ascii ''z'') (sampleCatalog ''c.pdf'' 7),
              withId (ascii ''x'') (sampleCatalog ''a.pdf'' 5)]"
    by (simp add: getAllCatalogs_fs_def sampleCatalog_def)
  from getAllCatalogs_order [of ?db "sampleCatalog ''c.pdf'' 7" "[]"] ok mono listing fs
  show ?thesis by simp
qed

text \<open>
  C9, as the specification states it, holds for neither reading of creation time in
  both stores. Three records saved into the empty object store with \<open>createdAt\<close> 5, 9
  and 7 are listed with \<open>createdAt\<close> 7, 9, 5, which is not newest first by that field.
  A document saved into the collection with \<open>createdAt\<close> 5 after one with \<open>createdAt\<close>
  9 is listed second, which is not newest first by the order of saving.
\<close>

theorem getAllCatalogs_creation_time_counterexample:
  "getAllCatalogs_idb None
     (snd (saveCatalog_idb None (sampleCatalog ''c.pdf'' 7)
        (snd (saveCatalog_idb None (sampleCatalog ''b.pdf'' 9)
           (snd (saveCatalog_idb None (sampleCatalog ''a.pdf'' 5) emptyObjectStore))))))
     = Inr [withId 3 (sampleCatalog ''c.pdf'' 7), withId 2 (sampleCatalog ''b.pdf'' 9),
            withId 1 (sampleCatalog ''a.pdf'' 5)]
   \<and> map createdAt
        [withId (3::nat) (sampleCatalog ''c.pdf'' 7), withId 2 (sampleCatalog ''b.pdf'' 9),
         withId 1 (sampleCatalog ''a.pdf'' 5)] = [7, 9, 5]
   \<and> \<not> sorted_wrt (\<lambda>a b. createdAt b \<le> createdAt a)
        [withId (3::nat) (sampleCatalog ''c.pdf'' 7), withId 2 (sampleCatalog ''b.pdf'' 9),
         withId 1 (sampleCatalog ''a.pdf'' 5)]
   \<and> getAllCatalogs_fs None
        (snd (saveCatalog_fs (\<lambda>imgs. Fulfilled imgs) (Fulfilled (ascii ''doc2''))
           (sampleCatalog ''b.pdf'' 5)
           (snd (saveCatalog_fs (\<lambda>imgs. Fulfilled imgs) (Fulfilled (ascii ''doc1''))
              (sampleCatalog ''a.pdf'' 9) []))))
     = Inr [withId (ascii ''doc1'') ((sampleCatalog ''a.pdf'' 9)\<lparr>images := Some []\<rparr>),
            withId (ascii ''doc2'') ((sampleCatalog ''b.pdf'' 5)\<lparr>images := Some []\<rparr>)]"
  by (simp add: getAllCatalogs_idb_def saveCatalog_idb_def emptyObjectStore_def array_sort_def
      getAllCatalogs_fs_def saveCatalog_fs_def withId_def sampleCatalog_def ascii_def Let_def)

section \<open>The summary service\<close>

text \<open>
  C10. For every text that is empty or consists only of whitespace, \<open>generateSummary\<close>
  returns the fixed placeholder message as a normal result (it does not throw) and makes
  no call to the AI model.
\<close>

theorem generateSummary_blank:
  "\<forall>c \<in> set text. isWhiteSpace c \<Longrightarrow>
     generateSummary lower model text = (Inr msg_no_summary_target, [])"
  by (simp add: generateSummary_def trim_all_whitespace)

theorem generateSummary_blank_witness:
  "isWhiteSpace 32 \<and> isWhiteSpace 12288 \<and> isWhiteSpace 10 \<and>
   generateSummary (\<lambda>s. s) (\<lambda>t. Rejected JsOther) [32, 12288, 10]
     = (Inr msg_no_summary_target, [])"
  using generateSummary_blank [of "[32, 12288, 10]" "\<lambda>s. s" "\<lambda>t. Rejected JsOther"]
  by (simp add: isWhiteSpace_def)

end
